theory Spec2Isabelle
  imports Complex_Main "HOL-Library.Word"
begin

section \<open>Python values shared by the two modules\<close>

text \<open>
  Python floats are modelled as real numbers and every operation is the exact one.  The
  one place where the binary representation decides a result that can be seen, a tie
  of \<open>round\<close>, is an input of the model.  The only values outside the reals that the
  code can produce from finite inputs are the \<open>inf\<close> and \<open>nan\<close> of a division by zero
  in NumPy, which warns and does not raise; they are values of their own in \<open>npfloat\<close>.
\<close>

datatype py_error =
  KeyError string
| ZeroDivisionError
| ValueError string
| Cv2Error string
| OSError string

text \<open>\<open>str(e)\<close>, the description a caller records.\<close>

fun str_error :: "py_error \<Rightarrow> string" where
  "str_error (KeyError k) = [CHR 0x27] @ k @ [CHR 0x27]"
| "str_error ZeroDivisionError = ''float division by zero''"
| "str_error (ValueError m) = m"
| "str_error (Cv2Error m) = m"
| "str_error (OSError m) = m"

text \<open>
  \<open>round(x, nd)\<close> on a float: the nearest multiple of \<open>10 ^ -nd\<close>.  Where the exact
  value lies half-way between two multiples, the builtin decides by the binary float
  that stands for it: the float for \<open>0.005\<close> lies above \<open>0.005\<close> and goes to \<open>0.01\<close>,
  the float for \<open>0.125\<close> is exact and goes to the even neighbour \<open>0.12\<close>.  A model over
  the reals cannot tell which, so the direction at a tie is an input of the model: the
  rule \<open>tie x nd\<close> holds when the half-way value \<open>x\<close> is rounded upwards.  Every statement
  below that mentions \<open>tie\<close> holds for every rule.
\<close>

type_synonym tie_rule = "real \<Rightarrow> nat \<Rightarrow> bool"

definition py_round :: "tie_rule \<Rightarrow> real \<Rightarrow> nat \<Rightarrow> real" where
  "py_round tie x nd =
     (let s = x * 10 ^ nd;
          f = \<lfloor>s\<rfloor>;
          d = s - of_int f
      in of_int (if d < 1 / 2 then f
                 else if 1 / 2 < d then f + 1
                 else if tie x nd then f + 1 else f) / 10 ^ nd)"

text \<open>
  The rule of a tie that is exact in binary: to the even neighbour.  It stands for the
  rule in the evaluations below, none of which rounds a tie.
\<close>

definition ties_to_even :: tie_rule where
  "ties_to_even x nd = odd \<lfloor>x * 10 ^ nd\<rfloor>"

text \<open>\<open>d.get(key, default)\<close> on a dict kept as an association list.\<close>

definition dict_get :: "('k \<times> 'v) list \<Rightarrow> 'k \<Rightarrow> 'v \<Rightarrow> 'v" where
  "dict_get d k dflt = (case map_of d k of None \<Rightarrow> dflt | Some v \<Rightarrow> v)"

text \<open>The same for a key of the statistics dict, which is a record of optional fields.\<close>

definition get_or :: "'a option \<Rightarrow> 'a \<Rightarrow> 'a" where
  "get_or field dflt = (case field of None \<Rightarrow> dflt | Some v \<Rightarrow> v)"

section \<open>app.py: the persisted processing statistics\<close>

record history_entry =
  h_filename :: string
  h_deforestation_percentage :: real
  h_confidence :: real
  h_timestamp :: string

text \<open>
  The statistics dict.  A dict loaded from the file may lack any key, so each key is
  optional; the code reads four of them with \<open>.get\<close> and a default and the fifth,
  \<open>history\<close>, by subscript.
\<close>

record stats =
  total_processed :: "int option"
  total_deforested_images :: "int option"
  average_deforestation_percentage :: "real option"
  average_confidence :: "real option"
  history :: "history_entry list option"

definition zero_stats :: stats where
  "zero_stats =
     \<lparr>total_processed = Some 0,
      total_deforested_images = Some 0,
      average_deforestation_percentage = Some 0,
      average_confidence = Some 0,
      history = Some []\<rparr>"

text \<open>
  The statistics file: absent, present but not readable as JSON, or holding a dict.
  The functions keep their Python names without the leading underscore.
\<close>

datatype stats_file = Absent | Unreadable | Stored stats

definition read_processing_stats :: "stats_file \<Rightarrow> stats" where
  "read_processing_stats file =
     (case file of
        Stored s \<Rightarrow> s
      | Unreadable \<Rightarrow> zero_stats
      | Absent \<Rightarrow> zero_stats)"

text \<open>
  Writing swallows every exception.  The outcome of the write is an input of the model:
  it succeeds, or \<open>open\<close> fails and the file stays as it was, or \<open>json.dump\<close> fails
  after \<open>open\<close> has truncated the file.
\<close>

datatype write_outcome = Succeeds | OpenFails | DumpFails

definition write_processing_stats :: "write_outcome \<Rightarrow> stats \<Rightarrow> stats_file \<Rightarrow> stats_file" where
  "write_processing_stats w s file =
     (case w of
        Succeeds \<Rightarrow> Stored s
      | OpenFails \<Rightarrow> file
      | DumpFails \<Rightarrow> Unreadable)"

text \<open>\<open>xs[-100:]\<close>: the last 100 elements, or all of them when there are fewer.\<close>

definition last_100 :: "'a list \<Rightarrow> 'a list" where
  "last_100 xs = drop (length xs - 100) xs"

text \<open>
  The body of \<open>_update_processing_stats\<close> between the read and the write.  \<open>now\<close> is
  the string \<open>datetime.now().isoformat()\<close> returns during the call.
\<close>

definition update_stats ::
  "tie_rule \<Rightarrow> stats \<Rightarrow> string \<Rightarrow> (string \<times> real) list \<Rightarrow> string \<Rightarrow> py_error + stats" where
  "update_stats tie stats0 fname results now =
     (let prev_total = get_or (total_processed stats0) 0;
          new_total = prev_total + 1;
          avg_def = get_or (average_deforestation_percentage stats0) 0;
          avg_conf = get_or (average_confidence stats0) 0;
          def_pct = dict_get results ''deforestation_percentage'' 0;
          conf = dict_get results ''confidence'' 0
      in if new_total = 0 then Inl ZeroDivisionError
         else
           let stats1 = stats0
                 \<lparr>average_deforestation_percentage :=
                    Some (py_round tie ((avg_def * of_int prev_total + def_pct) / of_int new_total) 2),
                  average_confidence :=
                    Some (py_round tie ((avg_conf * of_int prev_total + conf) / of_int new_total) 3),
                  total_processed := Some new_total\<rparr>;
               stats2 =
                 (if 20 \<le> def_pct
                  then stats1\<lparr>total_deforested_images :=
                                Some (get_or (total_deforested_images stats1) 0 + 1)\<rparr>
                  else stats1)
           in case history stats2 of
                None \<Rightarrow> Inl (KeyError ''history'')
              | Some h \<Rightarrow>
                  Inr (stats2\<lparr>history :=
                         Some (last_100 (h @ [\<lparr>h_filename = fname,
                                               h_deforestation_percentage = def_pct,
                                               h_confidence = conf,
                                               h_timestamp = now\<rparr>]))\<rparr>))"

definition update_processing_stats ::
  "tie_rule \<Rightarrow> write_outcome \<Rightarrow> stats_file \<Rightarrow> string \<Rightarrow> (string \<times> real) list \<Rightarrow> string
     \<Rightarrow> (py_error + stats) \<times> stats_file" where
  "update_processing_stats tie w file fname results now =
     (case update_stats tie (read_processing_stats file) fname results now of
        Inl e \<Rightarrow> (Inl e, file)
      | Inr s \<Rightarrow> (Inr s, write_processing_stats w s file))"

text \<open>
  A sequence of calls, each one reading what the one before wrote.  A call is its
  filename, its result dict and its timestamp.
\<close>

type_synonym record_call = "string \<times> (string \<times> real) list \<times> string"

fun record_all :: "tie_rule \<Rightarrow> stats_file \<Rightarrow> record_call list \<Rightarrow> stats_file" where
  "record_all tie file [] = file"
| "record_all tie file ((fname, results, now) # calls) =
     record_all tie (snd (update_processing_stats tie Succeeds file fname results now)) calls"

text \<open>The result dict of an image with the two values the aggregator reads.\<close>

definition result_of :: "real \<Rightarrow> real \<Rightarrow> (string \<times> real) list" where
  "result_of v c = [(''deforestation_percentage'', v), (''confidence'', c)]"

text \<open>The two values a call contributes, and the history entry it appends.\<close>

definition def_pct_of :: "record_call \<Rightarrow> real" where
  "def_pct_of c = dict_get (fst (snd c)) ''deforestation_percentage'' 0"

definition conf_of :: "record_call \<Rightarrow> real" where
  "conf_of c = dict_get (fst (snd c)) ''confidence'' 0"

definition entry_of :: "record_call \<Rightarrow> history_entry" where
  "entry_of c =
     \<lparr>h_filename = fst c,
      h_deforestation_percentage = def_pct_of c,
      h_confidence = conf_of c,
      h_timestamp = snd (snd c)\<rparr>"

text \<open>
  The incremental formula on its own: from average \<open>a\<close> over \<open>k\<close> values, fold in
  the values of the list one by one, rounding to \<open>nd\<close> places after each.
\<close>

fun run_avg_from :: "tie_rule \<Rightarrow> nat \<Rightarrow> real \<Rightarrow> nat \<Rightarrow> real list \<Rightarrow> real" where
  "run_avg_from tie nd a k [] = a"
| "run_avg_from tie nd a k (v # vs) =
     run_avg_from tie nd (py_round tie ((a * real k + v) / real (k + 1)) nd) (k + 1) vs"



section \<open>satellite_processor.py: the image pipeline\<close>

subsection \<open>Arrays and NumPy arithmetic\<close>

text \<open>
  A NumPy array is its shape and its elements in row-major order.  In a well-formed
  array the number of elements is the product of the shape.
\<close>

record 'a ndarray =
  shape :: "nat list"
  data :: "'a list"

definition wf_ndarray :: "'a ndarray \<Rightarrow> bool" where
  "wf_ndarray a = (length (data a) = prod_list (shape a))"

text \<open>\<open>a.size\<close>\<close>

definition size_nd :: "'a ndarray \<Rightarrow> nat" where
  "size_nd a = prod_list (shape a)"

text \<open>A float of NumPy: a finite value, or what a division by zero leaves.\<close>

datatype npfloat = Fin real | PosInf | NegInf | NaN

text \<open>A value of a result dict: a Python or NumPy integer, or a float.\<close>

datatype pynum = PInt int | PFloat npfloat

definition np_divide :: "real \<Rightarrow> real \<Rightarrow> npfloat" where
  "np_divide x y =
     (if y \<noteq> 0 then Fin (x / y)
      else if 0 < x then PosInf
      else if x < 0 then NegInf
      else NaN)"

text \<open>\<open>x > t\<close> and \<open>x < t\<close> against a finite threshold; a comparison with \<open>nan\<close> is false.\<close>

fun np_gt :: "npfloat \<Rightarrow> real \<Rightarrow> bool" where
  "np_gt (Fin v) t = (t < v)"
| "np_gt PosInf t = True"
| "np_gt NegInf t = False"
| "np_gt NaN t = False"

fun np_lt :: "npfloat \<Rightarrow> real \<Rightarrow> bool" where
  "np_lt (Fin v) t = (v < t)"
| "np_lt PosInf t = False"
| "np_lt NegInf t = True"
| "np_lt NaN t = False"

fun is_fin :: "npfloat \<Rightarrow> bool" where
  "is_fin (Fin v) = True"
| "is_fin PosInf = False"
| "is_fin NegInf = False"
| "is_fin NaN = False"

fun fin_val :: "npfloat \<Rightarrow> real" where
  "fin_val (Fin v) = v"
| "fin_val PosInf = 0"
| "fin_val NegInf = 0"
| "fin_val NaN = 0"

text \<open>
  \<open>np.std\<close> over all elements: the square root of the mean squared distance from the
  mean.  An empty array, or one with an element that is not finite, gives \<open>nan\<close>.
\<close>

definition std_of :: "real list \<Rightarrow> real" where
  "std_of vs =
     (let n = real (length vs);
          mu = sum_list vs / n
      in sqrt (sum_list (map (\<lambda>v. (v - mu)\<^sup>2) vs) / n))"

definition np_std :: "npfloat list \<Rightarrow> npfloat" where
  "np_std xs =
     (if list_all is_fin xs \<and> xs \<noteq> [] then Fin (std_of (map fin_val xs)) else NaN)"

text \<open>\<open>1 - x\<close> and \<open>x * 100\<close> on a NumPy float.\<close>

fun one_minus :: "npfloat \<Rightarrow> npfloat" where
  "one_minus (Fin v) = Fin (1 - v)"
| "one_minus PosInf = NegInf"
| "one_minus NegInf = PosInf"
| "one_minus NaN = NaN"

fun times_100 :: "npfloat \<Rightarrow> npfloat" where
  "times_100 (Fin v) = Fin (v * 100)"
| "times_100 PosInf = PosInf"
| "times_100 NegInf = NegInf"
| "times_100 NaN = NaN"

text \<open>
  The builtins \<open>max(a, b)\<close> and \<open>min(a, b)\<close> with a finite first argument: the first
  argument stays unless the second compares greater (less).
\<close>

definition py_max :: "real \<Rightarrow> npfloat \<Rightarrow> npfloat" where
  "py_max a b = (if np_gt b a then b else Fin a)"

definition py_min :: "real \<Rightarrow> npfloat \<Rightarrow> npfloat" where
  "py_min a b = (if np_lt b a then b else Fin a)"

fun np_round :: "tie_rule \<Rightarrow> npfloat \<Rightarrow> nat \<Rightarrow> npfloat" where
  "np_round tie (Fin v) nd = Fin (py_round tie v nd)"
| "np_round tie PosInf nd = PosInf"
| "np_round tie NegInf nd = NegInf"
| "np_round tie NaN nd = NaN"

text \<open>\<open>np.sum\<close> of a boolean array: the number of elements that satisfy the test.\<close>

definition count_true :: "('a \<Rightarrow> bool) \<Rightarrow> 'a list \<Rightarrow> nat" where
  "count_true p xs = length (filter p xs)"

subsection \<open>load_image\<close>

text \<open>
  \<open>cv2.imread\<close> reads the file system: it is a parameter, \<open>None\<close> where the file does
  not decode.  Called with its default flag, as here, it delivers three channels in the
  order blue, green, red.  \<open>cv2.cvtColor(image, cv2.COLOR_BGR2RGB)\<close> reverses the three
  channels of every pixel; on an array of another layout, which this \<open>imread\<close> call
  never delivers, the model lets it raise.
\<close>

definition cvtColor_BGR2RGB :: "8 word ndarray \<Rightarrow> py_error + 8 word ndarray" where
  "cvtColor_BGR2RGB img =
     (if length (shape img) = 3 \<and> shape img ! 2 = 3
      then Inr \<lparr>shape = shape img,
                data = concat (map (\<lambda>k. [data img ! (3 * k + 2),
                                           data img ! (3 * k + 1),
                                           data img ! (3 * k)])
                               [0..<shape img ! 0 * shape img ! 1])\<rparr>
      else Inl (Cv2Error ''Invalid number of channels in input image''))"

definition load_image ::
  "(string \<Rightarrow> 8 word ndarray option) \<Rightarrow> string \<Rightarrow> py_error + 8 word ndarray" where
  "load_image imread image_path =
     (case imread image_path of
        None \<Rightarrow> Inl (ValueError (''Could not load image: '' @ image_path))
      | Some img \<Rightarrow> cvtColor_BGR2RGB img)"

subsection \<open>preprocess_image\<close>

text \<open>\<open>np.expand_dims(image, axis=-1)\<close>\<close>

definition expand_dims_last :: "'a ndarray \<Rightarrow> 'a ndarray" where
  "expand_dims_last a = \<lparr>shape = shape a @ [1], data = data a\<rparr>"

text \<open>\<open>image.astype(np.float32) / 255.0\<close>\<close>

definition normalize :: "8 word ndarray \<Rightarrow> real ndarray" where
  "normalize a = \<lparr>shape = shape a, data = map (\<lambda>w. real (unat w) / 255) (data a)\<rparr>"

text \<open>
  \<open>cv2.resize\<close> is a library function outside the repository: it is the parameter
  \<open>rs\<close>, which may raise.  Both branches call it on the image as it came in; the
  channel axis of a two-dimensional image is appended to what it returns.
\<close>

type_synonym resize_fn = "8 word ndarray \<Rightarrow> nat \<times> nat \<Rightarrow> py_error + 8 word ndarray"

definition preprocess_image ::
  "resize_fn \<Rightarrow> 8 word ndarray \<Rightarrow> nat \<times> nat \<Rightarrow> py_error + real ndarray" where
  "preprocess_image rs img target_sz =
     (if length (shape img) = 3
      then (case rs img target_sz of
              Inl e \<Rightarrow> Inl e
            | Inr image1 \<Rightarrow> Inr (normalize image1))
      else (case rs img target_sz of
              Inl e \<Rightarrow> Inl e
            | Inr image1 \<Rightarrow> Inr (normalize (expand_dims_last image1))))"

text \<open>
  The procedure as the specification words it, for comparison: the channel axis of a
  single-channel image is appended first, and the result is resized.
\<close>

definition preprocess_axis_first ::
  "resize_fn \<Rightarrow> 8 word ndarray \<Rightarrow> nat \<times> nat \<Rightarrow> py_error + real ndarray" where
  "preprocess_axis_first rs img target_sz =
     (case rs (if length (shape img) = 3 then img else expand_dims_last img) target_sz of
        Inl e \<Rightarrow> Inl e
      | Inr image1 \<Rightarrow> Inr (normalize image1))"

text \<open>
  What \<open>cv2.resize\<close> does to the shape is fixed by the library and not by the
  interpolation: the size is given as (width, height) and the result has height rows
  and width columns; the channels are kept, except that the result of a single-channel
  image is two-dimensional; an empty image or an empty size is rejected.  The
  interpolation, which the specification leaves open, is the parameter \<open>interp\<close>: the
  byte at each position of the result, in row-major order.
\<close>

type_synonym interpolation = "8 word ndarray \<Rightarrow> nat \<times> nat \<Rightarrow> nat \<Rightarrow> 8 word"

definition cv2_resize :: "interpolation \<Rightarrow> resize_fn" where
  "cv2_resize interp a target_sz =
     (let w = fst target_sz; h = snd target_sz;
          H = shape a ! 0; W = shape a ! 1;
          C = (if length (shape a) = 3 then shape a ! 2 else 1)
      in if H = 0 \<or> W = 0 \<or> C = 0 \<or> w = 0 \<or> h = 0
         then Inl (Cv2Error ''Assertion failed in function resize'')
         else Inr \<lparr>shape = (if C = 1 then [h, w] else [h, w, C]),
                   data = map (interp a target_sz) [0..<h * w * C]\<rparr>)"

text \<open>
  Nearest-neighbour interpolation, to evaluate concrete inputs with: position \<open>k\<close> of the
  result is channel \<open>k mod C\<close> of the pixel in row \<open>k div (w * C)\<close> and column
  \<open>k div C mod w\<close>, taken from the source pixel at the same relative place.
\<close>

definition nearest_interp :: interpolation where
  "nearest_interp a target_sz k =
     (let w = fst target_sz; h = snd target_sz;
          H = shape a ! 0; W = shape a ! 1;
          C = (if length (shape a) = 3 then shape a ! 2 else 1);
          i = k div (w * C); j = k div C mod w; c = k mod C
      in data a ! (((i * H div h) * W + j * W div w) * C + c))"

subsection \<open>calculate_vegetation_indices\<close>

text \<open>\<open>image[:, :, c]\<close>: channel \<open>c\<close> of every pixel, as a two-dimensional array.\<close>

definition channel :: "'a ndarray \<Rightarrow> nat \<Rightarrow> 'a ndarray" where
  "channel img c =
     \<lparr>shape = take 2 (shape img),
      data = map (\<lambda>k. data img ! (k * (shape img ! 2) + c))
               [0..<shape img ! 0 * shape img ! 1]\<rparr>"

text \<open>An elementwise operation on three arrays of one shape.\<close>

definition elementwise3 ::
  "('a \<Rightarrow> 'a \<Rightarrow> 'a \<Rightarrow> 'b) \<Rightarrow> 'a ndarray \<Rightarrow> 'a ndarray \<Rightarrow> 'a ndarray \<Rightarrow> 'b ndarray" where
  "elementwise3 f a b c =
     \<lparr>shape = shape a,
      data = map (\<lambda>(x, y, z). f x y z) (zip (data a) (zip (data b) (data c)))\<rparr>"

type_synonym index_set = "(string \<times> npfloat ndarray) list"

definition calculate_vegetation_indices :: "real ndarray \<Rightarrow> index_set" where
  "calculate_vegetation_indices img =
     (if length (shape img) = 3 \<and> 3 \<le> shape img ! 2
      then let r = channel img 0;
               g = channel img 1;
               b = channel img 2;
               ndvi = elementwise3 (\<lambda>r g b. np_divide (g - r) (g + r + 1 / 10 ^ 8)) r g b;
               gndvi = elementwise3 (\<lambda>r g b. np_divide (g - r) (g + r + 1 / 10 ^ 8)) r g b;
               vari = elementwise3 (\<lambda>r g b. np_divide (g - r) (g + r - b + 1 / 10 ^ 8)) r g b;
               greenness = elementwise3 (\<lambda>r g b. np_divide g (r + b + 1 / 10 ^ 8)) r g b
           in [(''NDVI'', ndvi), (''GNDVI'', gndvi), (''VARI'', vari), (''Greenness'', greenness)]
      else [])"

subsection \<open>detect_deforestation\<close>

type_synonym result = "(string \<times> pynum) list"

definition degenerate_result :: result where
  "degenerate_result = [(''deforestation_percentage'', PInt 0), (''confidence'', PInt 0)]"

definition detect_deforestation :: "tie_rule \<Rightarrow> real ndarray \<Rightarrow> index_set \<Rightarrow> result" where
  "detect_deforestation tie img vegetation_indices =
     (if vegetation_indices = [] then degenerate_result
      else case map_of vegetation_indices ''NDVI'' of
             Some ndvi \<Rightarrow>
               let forest_threshold = 3 / 10;
                   deforested_threshold = 1 / 10;
                   forest_pixels = count_true (\<lambda>x. np_gt x forest_threshold) (data ndvi);
                   deforested_pixels = count_true (\<lambda>x. np_lt x deforested_threshold) (data ndvi);
                   total_pixels = size_nd ndvi;
                   deforestation_percentage =
                     times_100 (np_divide (real deforested_pixels) (real total_pixels));
                   forest_percentage =
                     times_100 (np_divide (real forest_pixels) (real total_pixels));
                   confidence = py_min (95 / 100) (py_max (1 / 2) (one_minus (np_std (data ndvi))))
               in [(''deforestation_percentage'', PFloat (np_round tie deforestation_percentage 2)),
                   (''forest_percentage'', PFloat (np_round tie forest_percentage 2)),
                   (''confidence'', PFloat (np_round tie confidence 3)),
                   (''total_pixels'', PInt (int total_pixels)),
                   (''forest_pixels'', PInt (int forest_pixels)),
                   (''deforested_pixels'', PInt (int deforested_pixels))]
           | None \<Rightarrow> degenerate_result)"

subsection \<open>process_satellite_image and batch_process\<close>

text \<open>
  The pipeline on one file.  \<open>save_results\<close> writes three files and swallows every
  exception of its own, so it changes neither the value returned nor whether the call
  raises; it is left out, and so is the copy of the indices kept in
  \<open>self.vegetation_indices\<close>, which only \<open>get_status\<close> reads.  The mask is all 255
  over the spatial shape.
\<close>

definition process_satellite_image ::
  "tie_rule \<Rightarrow> (string \<Rightarrow> 8 word ndarray option) \<Rightarrow> resize_fn \<Rightarrow> string
     \<Rightarrow> py_error + (result \<times> nat ndarray \<times> index_set)" where
  "process_satellite_image tie imread rs image_path =
     (case load_image imread image_path of
        Inl e \<Rightarrow> Inl e
      | Inr img \<Rightarrow>
          (case preprocess_image rs img (512, 512) of
             Inl e \<Rightarrow> Inl e
           | Inr processed_image \<Rightarrow>
               let indices = calculate_vegetation_indices processed_image;
                   results = detect_deforestation tie processed_image indices;
                   mask_img = \<lparr>shape = take 2 (shape processed_image),
                           data = replicate (prod_list (take 2 (shape processed_image))) 255\<rparr>
               in Inr (results, mask_img, indices)))"

text \<open>\<open>str.lower\<close> on ASCII, \<open>str.endswith\<close>, and the POSIX \<open>os.path\<close> functions.\<close>

definition lower_char :: "char \<Rightarrow> char" where
  "lower_char c =
     (case map_of (zip ''ABCDEFGHIJKLMNOPQRSTUVWXYZ'' ''abcdefghijklmnopqrstuvwxyz'') c of
        Some l \<Rightarrow> l
      | None \<Rightarrow> c)"

definition lower :: "string \<Rightarrow> string" where
  "lower s = map lower_char s"

definition endswith :: "string \<Rightarrow> string \<Rightarrow> bool" where
  "endswith s suffix =
     (length suffix \<le> length s \<and> drop (length s - length suffix) s = suffix)"

definition path_join :: "string \<Rightarrow> string \<Rightarrow> string" where
  "path_join a b =
     (if b \<noteq> [] \<and> hd b = CHR ''/'' then b
      else if a = [] then b
      else if last a = CHR ''/'' then a @ b
      else a @ ''/'' @ b)"

definition basename :: "string \<Rightarrow> string" where
  "basename p = rev (takeWhile (\<lambda>c. c \<noteq> CHR ''/'') (rev p))"

definition supported_formats :: "string list" where
  "supported_formats = [''.jpg'', ''.jpeg'', ''.png'', ''.bmp'']"

definition is_supported :: "string \<Rightarrow> bool" where
  "is_supported filename = list_ex (\<lambda>fmt. endswith (lower filename) fmt) supported_formats"

record batch_entry =
  e_file :: string
  e_result :: "result option"
  e_status :: string
  e_error :: "string option"

record batch_report =
  report_results :: "batch_entry list"
  report_total_files :: nat

text \<open>The first loop: the supported files of the listing, joined to the directory.\<close>

fun find_supported :: "string \<Rightarrow> string list \<Rightarrow> string list \<Rightarrow> string list" where
  "find_supported directory_path [] supported_files = supported_files"
| "find_supported directory_path (filename # rest) supported_files =
     find_supported directory_path rest
       (if is_supported filename
        then supported_files @ [path_join directory_path filename]
        else supported_files)"

text \<open>The second loop: one entry per file, an exception of the pipeline caught.\<close>

fun process_files ::
  "(string \<Rightarrow> py_error + (result \<times> nat ndarray \<times> index_set)) \<Rightarrow> string list
     \<Rightarrow> batch_entry list \<Rightarrow> batch_entry list" where
  "process_files process [] results_acc = results_acc"
| "process_files process (file_path # rest) results_acc =
     process_files process rest
       (results_acc @
        [case process file_path of
           Inr (result, mask_img, indices) \<Rightarrow>
             \<lparr>e_file = basename file_path, e_result = Some result,
              e_status = ''success'', e_error = None\<rparr>
         | Inl e \<Rightarrow>
             \<lparr>e_file = basename file_path, e_result = None,
              e_status = ''error'', e_error = Some (str_error e)\<rparr>])"

text \<open>
  \<open>os.listdir\<close> reads the file system: its outcome is the parameter \<open>listing\<close>, the
  names in the directory or the exception it raises, which \<open>batch_process\<close> passes on.
\<close>

definition batch_process ::
  "tie_rule \<Rightarrow> (string \<Rightarrow> 8 word ndarray option) \<Rightarrow> resize_fn \<Rightarrow> string \<Rightarrow> py_error + string list
     \<Rightarrow> py_error + batch_report" where
  "batch_process tie imread rs directory_path listing =
     (case listing of
        Inl e \<Rightarrow> Inl e
      | Inr filenames \<Rightarrow>
          let supported_files = find_supported directory_path filenames []
          in Inr \<lparr>report_results =
                    process_files (process_satellite_image tie imread rs) supported_files [],
                  report_total_files = length supported_files\<rparr>)"

subsection \<open>Concrete inputs\<close>

text \<open>
  A one-by-two RGB image (a forest-green pixel and a bare-soil pixel), and small index
  arrays, to evaluate the pipeline on.
\<close>

definition tiny_image :: "real ndarray" where
  "tiny_image =
     \<lparr>shape = [1, 2, 3],
      data = [50 / 255, 180 / 255, 50 / 255, 200 / 255, 60 / 255, 60 / 255]\<rparr>"

definition vari_only :: index_set where
  "vari_only = [(''VARI'', \<lparr>shape = [1, 2], data = [Fin 0, NaN]\<rparr>)]"

definition uniform_ndvi :: "npfloat ndarray" where
  "uniform_ndvi = \<lparr>shape = [1, 2], data = [Fin (1 / 2), Fin (1 / 2)]\<rparr>"

definition spread_ndvi :: "npfloat ndarray" where
  "spread_ndvi = \<lparr>shape = [1, 2], data = [Fin 0, Fin (1001 / 5000)]\<rparr>"

definition boundary_ndvi :: "npfloat ndarray" where
  "boundary_ndvi =
     \<lparr>shape = [1, 5],
      data = [Fin (3 / 10), Fin (1 / 10), Fin (31 / 100), Fin (9 / 100), Fin (2 / 10)]\<rparr>"

definition between_ndvi :: "npfloat ndarray" where
  "between_ndvi = \<lparr>shape = [1, 2], data = [Fin (2 / 10), Fin (15 / 100)]\<rparr>"

text \<open>A grey pixel and a blue-green-red pixel as \<open>cv2.imread\<close> delivers them.\<close>

definition gray_pixel :: "8 word ndarray" where
  "gray_pixel = \<lparr>shape = [1, 1], data = [255]\<rparr>"

definition bgr_pixel :: "8 word ndarray" where
  "bgr_pixel = \<lparr>shape = [1, 1, 3], data = [50, 180, 50]\<rparr>"

text \<open>A red-green-blue pixel as \<open>load_image\<close> returns it.\<close>

definition rgb_pixel :: "8 word ndarray" where
  "rgb_pixel = \<lparr>shape = [1, 1, 3], data = [50, 180, 50]\<rparr>"

text \<open>
  A directory listing of three images that decode, two that do not, and one file that
  is not an image; and the summary of a report: the count, the file names and the
  statuses.
\<close>

definition scenario_names :: "string list" where
  "scenario_names = [''a.jpg'', ''b.PNG'', ''notes.txt'', ''c.jpeg'', ''bad.bmp'', ''worse.JPG'']"

definition scenario_imread :: "string \<Rightarrow> 8 word ndarray option" where
  "scenario_imread p =
     (if p = ''imgs/bad.bmp'' \<or> p = ''imgs/worse.JPG'' then None else Some bgr_pixel)"

definition report_summary :: "py_error + batch_report \<Rightarrow> py_error + nat \<times> string list \<times> string list" where
  "report_summary r =
     (case r of
        Inl e \<Rightarrow> Inl e
      | Inr rep \<Rightarrow>
          Inr (report_total_files rep, map e_file (report_results rep),
               map e_status (report_results rep)))"

section \<open>Properties of the statistics aggregator\<close>





lemma last_100_append: "last_100 (last_100 xs @ ys) = last_100 (xs @ ys)"
proof -
  have "length xs + length ys - (length xs - 100 + 100) + (length xs - 100)
          = length xs + length ys - 100"
    by arith
  then show ?thesis by (simp add: last_100_def)
qed

lemma update_stats_full:
  "update_stats tie
     \<lparr>total_processed = Some (int k), total_deforested_images = Some d,
      average_deforestation_percentage = Some a, average_confidence = Some b,
      history = Some h\<rparr> fname results now =
   Inr \<lparr>total_processed = Some (int (k + 1)),
        total_deforested_images =
          Some (if 20 \<le> dict_get results ''deforestation_percentage'' 0 then d + 1 else d),
        average_deforestation_percentage =
          Some (py_round tie ((a * real k + dict_get results ''deforestation_percentage'' 0) / real (k + 1)) 2),
        average_confidence =
          Some (py_round tie ((b * real k + dict_get results ''confidence'' 0) / real (k + 1)) 3),
        history = Some (last_100 (h @ [entry_of (fname, results, now)]))\<rparr>"
  by (simp add: update_stats_def Let_def get_or_def entry_of_def def_pct_of_def conf_of_def add.commute)

lemma record_all_Stored:
  "record_all tie
     (Stored \<lparr>total_processed = Some (int k), total_deforested_images = Some d,
        average_deforestation_percentage = Some a, average_confidence = Some b,
        history = Some (last_100 h)\<rparr>) cs =
   Stored \<lparr>total_processed = Some (int (k + length cs)),
        total_deforested_images = Some (d + int (length (filter (\<lambda>c. 20 \<le> def_pct_of c) cs))),
        average_deforestation_percentage = Some (run_avg_from tie 2 a k (map def_pct_of cs)),
        average_confidence = Some (run_avg_from tie 3 b k (map conf_of cs)),
        history = Some (last_100 (h @ map entry_of cs))\<rparr>"
proof (induction cs arbitrary: k d a b h)
  case Nil
  show ?case by simp
next
  case (Cons c cs)
  obtain fname results now where c: "c = (fname, results, now)" by (cases c) auto
  show ?case
    unfolding c record_all.simps update_processing_stats_def read_processing_stats_def
      stats_file.case update_stats_full sum.case snd_conv write_processing_stats_def
      write_outcome.case last_100_append
    using Cons.IH[of "k + 1" _ _ _ "h @ [entry_of (fname, results, now)]"]
    by (simp add: def_pct_of_def conf_of_def)
qed

lemma zero_stats_alt:
  "zero_stats = \<lparr>total_processed = Some (int 0), total_deforested_images = Some 0,
        average_deforestation_percentage = Some 0, average_confidence = Some 0,
        history = Some (last_100 [])\<rparr>"
  by (simp add: zero_stats_def last_100_def)

lemma record_all_fresh:
  "cs \<noteq> [] \<Longrightarrow> read_processing_stats file = zero_stats
     \<Longrightarrow> record_all tie file cs = record_all tie (Stored zero_stats) cs"
proof (cases cs)
  case Nil
  assume "cs \<noteq> []"
  with Nil show ?thesis by simp
next
  case (Cons c cs')
  assume r: "read_processing_stats file = zero_stats"
  obtain fname results now where c: "c = (fname, results, now)" by (cases c) auto
  obtain s where u: "update_stats tie zero_stats fname results now = Inr s"
    unfolding zero_stats_alt update_stats_full by simp
  show ?thesis
    unfolding Cons c
    by (simp add: update_processing_stats_def read_processing_stats_def r[unfolded read_processing_stats_def] u
          write_processing_stats_def)
qed

lemma read_record_all_Absent:
  "read_processing_stats (record_all tie Absent cs) =
     \<lparr>total_processed = Some (int (length cs)),
      total_deforested_images = Some (int (length (filter (\<lambda>c. 20 \<le> def_pct_of c) cs))),
      average_deforestation_percentage = Some (run_avg_from tie 2 0 0 (map def_pct_of cs)),
      average_confidence = Some (run_avg_from tie 3 0 0 (map conf_of cs)),
      history = Some (last_100 (map entry_of cs))\<rparr>"
proof (cases "cs = []")
  case True
  then show ?thesis by (simp add: read_processing_stats_def zero_stats_def last_100_def)
next
  case False
  have "record_all tie Absent cs = record_all tie (Stored zero_stats) cs"
    by (rule record_all_fresh[OF False]) (simp add: read_processing_stats_def)
  then show ?thesis
    unfolding zero_stats_alt record_all_Stored by (simp add: read_processing_stats_def)
qed



text \<open>
  Two calls with the percentages \<open>0.01\<close> and \<open>0\<close>: the second rounds the tie \<open>0.005\<close>,
  and where the rule sends it upwards, as the float for \<open>0.005\<close> does, \<open>0.01\<close> is stored.
\<close>

lemma tie_upwards_stored:
  assumes "tie (1 / 200) 2"
  shows "average_deforestation_percentage
           (read_processing_stats
              (record_all tie Absent
                 [(''a.png'', result_of (1 / 100) c, ''t1''), (''b.png'', result_of 0 c', ''t2'')]))
         = Some (1 / 100)"
  unfolding read_record_all_Absent using assms
  by (simp add: def_pct_of_def result_of_def dict_get_def py_round_def Let_def)

text \<open>The first call stores the rounded value itself, which is the rounded mean.\<close>

lemma run_avg_single: "run_avg_from tie nd 0 0 [v] = py_round tie v nd"
  by simp



text \<open>
  Claim C2: after any sequence of calls on the zeroed record the history is the list of
  the entries appended, in the order of the calls, without its first \<open>n - 100\<close> entries
  when there were \<open>n > 100\<close> calls; its length is at most 100.  After 105 calls these
  are the entries of calls 6 to 105.
\<close>

theorem C2_history_last_100:
  "history (read_processing_stats (record_all tie Absent cs))
     = Some (drop (length cs - 100) (map entry_of cs))
   \<and> length (drop (length cs - 100) (map entry_of cs)) \<le> 100"
  unfolding read_record_all_Absent by (simp add: last_100_def)

text \<open>
  Whatever record a call starts from, the history it returns has at most 100 entries
  and ends with the entry of this call.
\<close>

lemma update_stats_history:
  assumes "update_stats tie s fname results now = Inr s'"
  shows "\<exists>h. history s' = Some h \<and> length h \<le> 100 \<and> h \<noteq> []
           \<and> last h = entry_of (fname, results, now)"
proof -
  obtain h0 where h0: "history s = Some h0"
    using assms by (auto simp: update_stats_def Let_def split: if_splits option.splits)
  have h: "history s' = Some (last_100 (h0 @ [entry_of (fname, results, now)]))"
    using assms h0
    by (auto simp: update_stats_def Let_def entry_of_def def_pct_of_def conf_of_def
          split: if_splits)
  have ne: "last_100 (h0 @ [entry_of (fname, results, now)]) \<noteq> []"
    by (simp add: last_100_def)
  have "last (last_100 (h0 @ [entry_of (fname, results, now)])) = entry_of (fname, results, now)"
    unfolding last_100_def by (subst last_drop) simp_all
  then show ?thesis using h ne by (simp add: last_100_def)
qed

text \<open>
  Claim C3: a call that returns adds 1 to \<open>total_processed\<close>, and adds 1 to
  \<open>total_deforested_images\<close> exactly when the deforestation percentage of the result
  is at least 20 (and leaves it as it was otherwise).  A key absent from the record
  counts as 0, as \<open>.get\<close> reads it.
\<close>

theorem C3_counters:
  assumes "update_stats tie s fname results now = Inr s'"
  shows "total_processed s' = Some (get_or (total_processed s) 0 + 1)
       \<and> get_or (total_deforested_images s') 0 =
           get_or (total_deforested_images s) 0
             + (if 20 \<le> dict_get results ''deforestation_percentage'' 0 then 1 else 0)"
  using assms
  by (auto simp: update_stats_def Let_def get_or_def split: if_splits option.splits)

theorem C3_counters_witness:
  "update_stats ties_to_even zero_stats ''a.png'' (result_of 20 (9 / 10)) ''t''
     = Inr (zero_stats\<lparr>total_processed := Some 1, total_deforested_images := Some 1,
              average_deforestation_percentage := Some 20, average_confidence := Some (9 / 10),
              history := Some [\<lparr>h_filename = ''a.png'', h_deforestation_percentage = 20,
                                h_confidence = 9 / 10, h_timestamp = ''t''\<rparr>]\<rparr>)
   \<and> total_processed (zero_stats\<lparr>total_processed := Some 1, total_deforested_images := Some 1,
              average_deforestation_percentage := Some 20, average_confidence := Some (9 / 10),
              history := Some [\<lparr>h_filename = ''a.png'', h_deforestation_percentage = 20,
                                h_confidence = 9 / 10, h_timestamp = ''t''\<rparr>]\<rparr>) = Some 1"
proof -
  have u: "update_stats ties_to_even zero_stats ''a.png'' (result_of 20 (9 / 10)) ''t''
     = Inr (zero_stats\<lparr>total_processed := Some 1, total_deforested_images := Some 1,
              average_deforestation_percentage := Some 20, average_confidence := Some (9 / 10),
              history := Some [\<lparr>h_filename = ''a.png'', h_deforestation_percentage = 20,
                                h_confidence = 9 / 10, h_timestamp = ''t''\<rparr>]\<rparr>)"
    by (simp add: update_stats_def Let_def get_or_def zero_stats_def result_of_def dict_get_def
          py_round_def last_100_def)
  show ?thesis using C3_counters[OF u] u by (simp add: zero_stats_def get_or_def)
qed

text \<open>The boundary of claim C3 from below: 19.99 is not counted.\<close>

lemma update_stats_below_threshold:
  "update_stats ties_to_even zero_stats ''a.png'' (result_of (1999 / 100) (9 / 10)) ''t''
     = Inr (zero_stats\<lparr>total_processed := Some 1, total_deforested_images := Some 0,
              average_deforestation_percentage := Some (1999 / 100),
              average_confidence := Some (9 / 10),
              history := Some [\<lparr>h_filename = ''a.png'',
                                h_deforestation_percentage = 1999 / 100,
                                h_confidence = 9 / 10, h_timestamp = ''t''\<rparr>]\<rparr>)"
  by (simp add: update_stats_def Let_def get_or_def zero_stats_def result_of_def dict_get_def
        py_round_def last_100_def)

text \<open>
  Claim C10: a statistics file that exists and cannot be read or parsed reads as the
  zeroed record, the same as an absent file, raising nothing; the call that follows
  stores and returns the statistics of its own image alone.
\<close>

theorem C10_unreadable_restarts:
  "read_processing_stats Unreadable = zero_stats
   \<and> read_processing_stats Unreadable = read_processing_stats Absent
   \<and> update_processing_stats tie w Unreadable fname results now =
       (Inr \<lparr>total_processed = Some 1,
             total_deforested_images =
               Some (if 20 \<le> dict_get results ''deforestation_percentage'' 0 then 1 else 0),
             average_deforestation_percentage =
               Some (py_round tie (dict_get results ''deforestation_percentage'' 0) 2),
             average_confidence = Some (py_round tie (dict_get results ''confidence'' 0) 3),
             history = Some [entry_of (fname, results, now)]\<rparr>,
        write_processing_stats w
          \<lparr>total_processed = Some 1,
           total_deforested_images =
             Some (if 20 \<le> dict_get results ''deforestation_percentage'' 0 then 1 else 0),
           average_deforestation_percentage =
             Some (py_round tie (dict_get results ''deforestation_percentage'' 0) 2),
           average_confidence = Some (py_round tie (dict_get results ''confidence'' 0) 3),
           history = Some [entry_of (fname, results, now)]\<rparr>
          Unreadable)
   \<and> fst (update_processing_stats tie w Unreadable fname results now)
       = fst (update_processing_stats tie w Absent fname results now)"
  unfolding update_processing_stats_def read_processing_stats_def stats_file.case
    zero_stats_alt update_stats_full
  by (simp add: last_100_def zero_stats_def)

section \<open>Properties of the image pipeline\<close>

text \<open>
  Claim C7 as it is written, at an empty index set: the dict returned has no
  \<open>forest_percentage\<close>, \<open>total_pixels\<close>, \<open>forest_pixels\<close> or \<open>deforested_pixels\<close> key
  at all, so none of them is there to be zero.
\<close>

theorem C7_counterexample:
  "map_of (detect_deforestation ties_to_even tiny_image []) ''forest_percentage'' = None
   \<and> map_of (detect_deforestation ties_to_even tiny_image []) ''total_pixels'' = None
   \<and> map_of (detect_deforestation ties_to_even tiny_image []) ''forest_pixels'' = None
   \<and> map_of (detect_deforestation ties_to_even tiny_image []) ''deforested_pixels'' = None"
  by (simp add: detect_deforestation_def degenerate_result_def)

text \<open>
  Claim C7, amended: when the index set is empty or has no \<open>NDVI\<close> entry, the
  classifier returns, raising nothing, the dict of exactly two keys
  \<open>{deforestation_percentage: 0, confidence: 0}\<close>.
\<close>

theorem C7_degenerate:
  assumes "map_of vegetation_indices ''NDVI'' = None"
  shows "detect_deforestation tie img vegetation_indices
           = [(''deforestation_percentage'', PInt 0), (''confidence'', PInt 0)]"
  using assms by (simp add: detect_deforestation_def degenerate_result_def)

theorem C7_degenerate_witness:
  "map_of vari_only ''NDVI'' = None
   \<and> detect_deforestation ties_to_even tiny_image vari_only
       = [(''deforestation_percentage'', PInt 0), (''confidence'', PInt 0)]
   \<and> map_of ([] :: index_set) ''NDVI'' = None
   \<and> detect_deforestation ties_to_even tiny_image []
       = [(''deforestation_percentage'', PInt 0), (''confidence'', PInt 0)]"
proof -
  have a: "map_of vari_only ''NDVI'' = None" by (simp add: vari_only_def)
  have b: "map_of ([] :: index_set) ''NDVI'' = None" by simp
  show ?thesis using C7_degenerate[OF a, where img = tiny_image and tie = ties_to_even]
      C7_degenerate[OF b, where img = tiny_image and tie = ties_to_even] a by simp
qed

lemma count_true_le: "count_true p xs \<le> length xs"
  by (simp add: count_true_def)

lemma py_round_as_int:
  obtains r :: int where "py_round tie x nd = of_int r / 10 ^ nd"
    and "\<And>m. x * 10 ^ nd \<le> of_int m \<Longrightarrow> r \<le> m"
    and "\<And>m. of_int m \<le> x * 10 ^ nd \<Longrightarrow> m \<le> r"
proof -
  define s where "s = x * 10 ^ nd"
  define f where "f = \<lfloor>s\<rfloor>"
  define r :: int where "r = (if s - of_int f < 1 / 2 then f
                 else if 1 / 2 < s - of_int f then f + 1
                 else if tie x nd then f + 1 else f)"
  have eq: "py_round tie x nd = of_int r / 10 ^ nd"
    unfolding py_round_def Let_def r_def f_def s_def by simp
  have up: "r \<le> m" if "s \<le> of_int m" for m
  proof -
    have "f \<le> m" using that unfolding f_def by (simp add: floor_le_iff)
    moreover have "f + 1 \<le> m" if "0 < s - of_int f"
    proof -
      have "of_int f < s" using that by simp
      then have "real_of_int f < of_int m" using \<open>s \<le> of_int m\<close> by linarith
      then show ?thesis by simp
    qed
    ultimately show ?thesis unfolding r_def by (auto split: if_splits)
  qed
  have lo: "m \<le> r" if "of_int m \<le> s" for m
  proof -
    have "m \<le> f" using that unfolding f_def by (simp add: le_floor_iff)
    then show ?thesis unfolding r_def by (auto split: if_splits)
  qed
  show ?thesis using that[of r] eq up lo unfolding s_def by blast
qed

lemma py_round_le: "x * 10 ^ nd \<le> of_int m \<Longrightarrow> py_round tie x nd \<le> of_int m / 10 ^ nd"
proof -
  assume a: "x * 10 ^ nd \<le> of_int m"
  obtain r :: int where r: "py_round tie x nd = of_int r / 10 ^ nd" "r \<le> m"
    using py_round_as_int[of tie x nd] a by metis
  have "real_of_int r \<le> of_int m" using r(2) by simp
  then show ?thesis unfolding r(1) by (simp add: divide_right_mono)
qed

lemma py_round_ge: "of_int m \<le> x * 10 ^ nd \<Longrightarrow> of_int m / 10 ^ nd \<le> py_round tie x nd"
proof -
  assume a: "of_int m \<le> x * 10 ^ nd"
  obtain r :: int where r: "py_round tie x nd = of_int r / 10 ^ nd" "m \<le> r"
    using py_round_as_int[of tie x nd] a by metis
  have "real_of_int m \<le> of_int r" using r(2) by simp
  then show ?thesis unfolding r(1) by (simp add: divide_right_mono)
qed

lemma pct_bounds:
  assumes "k \<le> n" "0 < n"
  shows "0 \<le> py_round tie (real k / real n * 100) 2" "py_round tie (real k / real n * 100) 2 \<le> 100"
proof -
  define x where "x = real k / real n * 100"
  have x: "0 \<le> x" "x \<le> 100" using assms by (simp_all add: x_def field_simps)
  have "of_int 0 / 10 ^ 2 \<le> py_round tie x 2" by (rule py_round_ge) (use x in simp)
  then show "0 \<le> py_round tie (real k / real n * 100) 2" by (simp add: x_def)
  have "py_round tie x 2 \<le> of_int 10000 / 10 ^ 2" by (rule py_round_le) (use x in simp)
  then show "py_round tie (real k / real n * 100) 2 \<le> 100" by (simp add: x_def)
qed

lemma conf_bounds:
  assumes "1 / 2 \<le> c" "c \<le> 95 / 100"
  shows "1 / 2 \<le> py_round tie c 3" "py_round tie c 3 \<le> 95 / 100"
proof -
  have "of_int 500 / 10 ^ 3 \<le> py_round tie c 3" by (rule py_round_ge) (use assms in simp)
  then show "1 / 2 \<le> py_round tie c 3" by simp
  have "py_round tie c 3 \<le> of_int 950 / 10 ^ 3" by (rule py_round_le) (use assms in simp)
  then show "py_round tie c 3 \<le> 95 / 100" by simp
qed

lemma detect_ndvi:
  assumes "map_of vi ''NDVI'' = Some ndvi"
  shows "detect_deforestation tie img vi =
    [(''deforestation_percentage'',
        PFloat (np_round tie (times_100 (np_divide (real (count_true (\<lambda>x. np_lt x (1 / 10)) (data ndvi)))
                                       (real (size_nd ndvi)))) 2)),
     (''forest_percentage'',
        PFloat (np_round tie (times_100 (np_divide (real (count_true (\<lambda>x. np_gt x (3 / 10)) (data ndvi)))
                                       (real (size_nd ndvi)))) 2)),
     (''confidence'',
        PFloat (np_round tie (py_min (95 / 100) (py_max (1 / 2) (one_minus (np_std (data ndvi))))) 3)),
     (''total_pixels'', PInt (int (size_nd ndvi))),
     (''forest_pixels'', PInt (int (count_true (\<lambda>x. np_gt x (3 / 10)) (data ndvi)))),
     (''deforested_pixels'', PInt (int (count_true (\<lambda>x. np_lt x (1 / 10)) (data ndvi))))]"
proof -
  have "vi \<noteq> []" using assms by auto
  then show ?thesis using assms by (simp add: detect_deforestation_def Let_def)
qed

lemma pct_value:
  "0 < n \<Longrightarrow> np_round tie (times_100 (np_divide (real k) (real n))) 2
     = Fin (py_round tie (real k / real n * 100) 2)"
  by (simp add: np_divide_def)

lemma clamp_Fin: "py_min hi (py_max lo (Fin v)) = Fin (min hi (max lo v))"
  by (auto simp: py_min_def py_max_def min_def max_def)

lemma clamp_fin:
  assumes "lo \<le> hi"
  obtains c where "py_min hi (py_max lo x) = Fin c" "lo \<le> c" "c \<le> hi"
proof (cases x)
  case (Fin v)
  show ?thesis
    by (rule that[of "min hi (max lo v)"]) (use assms in \<open>auto simp: Fin clamp_Fin\<close>)
next
  case PosInf
  show ?thesis by (rule that[of hi]) (use assms in \<open>auto simp: PosInf py_min_def py_max_def\<close>)
next
  case NegInf
  show ?thesis by (rule that[of lo]) (use assms in \<open>auto simp: NegInf py_min_def py_max_def\<close>)
next
  case NaN
  show ?thesis by (rule that[of lo]) (use assms in \<open>auto simp: NaN py_min_def py_max_def\<close>)
qed

text \<open>
  Claim C4, amended: for a well-formed, non-empty \<open>NDVI\<close> array, whatever its elements,
  the result has both percentages in [0, 100], a confidence in [0.5, 0.95], and
  \<open>total_pixels\<close> equal to the number of elements of the array.  When every element is
  finite the confidence is \<open>round(clamp(1 - stddev(NDVI), 0.5, 0.95), 3)\<close>: the clamped
  value rounded to three places, not the clamped value itself.
\<close>

theorem C4_classification_ranges:
  assumes "map_of vi ''NDVI'' = Some ndvi" and "wf_ndarray ndvi" and "data ndvi \<noteq> []"
  shows "\<exists>d f c.
           map_of (detect_deforestation tie img vi) ''deforestation_percentage'' = Some (PFloat (Fin d))
         \<and> 0 \<le> d \<and> d \<le> 100
         \<and> map_of (detect_deforestation tie img vi) ''forest_percentage'' = Some (PFloat (Fin f))
         \<and> 0 \<le> f \<and> f \<le> 100
         \<and> map_of (detect_deforestation tie img vi) ''confidence'' = Some (PFloat (Fin c))
         \<and> 1 / 2 \<le> c \<and> c \<le> 95 / 100
         \<and> (list_all is_fin (data ndvi) \<longrightarrow>
               c = py_round tie (min (95 / 100) (max (1 / 2) (1 - std_of (map fin_val (data ndvi))))) 3)
         \<and> map_of (detect_deforestation tie img vi) ''total_pixels''
               = Some (PInt (int (prod_list (shape ndvi))))
         \<and> prod_list (shape ndvi) = length (data ndvi)"
proof -
  define n where "n = size_nd ndvi"
  have n1: "n = length (data ndvi)"
    using assms(2) by (simp add: n_def size_nd_def wf_ndarray_def)
  have n2: "0 < n" unfolding n1 using assms(3) by simp
  note n = n1 n2
  define kd where "kd = count_true (\<lambda>x. np_lt x (1 / 10)) (data ndvi)"
  define kf where "kf = count_true (\<lambda>x. np_gt x (3 / 10)) (data ndvi)"
  have k: "kd \<le> n" "kf \<le> n" unfolding kd_def kf_def n(1) by (rule count_true_le)+
  obtain c0 where c0: "py_min (95 / 100) (py_max (1 / 2) (one_minus (np_std (data ndvi)))) = Fin c0"
      "1 / 2 \<le> c0" "c0 \<le> 95 / 100"
    by (rule clamp_fin[of "1 / 2" "95 / 100"]) simp
  have cf: "c0 = min (95 / 100) (max (1 / 2) (1 - std_of (map fin_val (data ndvi))))"
    if "list_all is_fin (data ndvi)"
    using c0(1) that assms(3) unfolding np_std_def one_minus.simps by (simp add: clamp_Fin)
  have res: "map_of (detect_deforestation tie img vi) ''deforestation_percentage''
               = Some (PFloat (Fin (py_round tie (real kd / real n * 100) 2)))"
      "map_of (detect_deforestation tie img vi) ''forest_percentage''
               = Some (PFloat (Fin (py_round tie (real kf / real n * 100) 2)))"
      "map_of (detect_deforestation tie img vi) ''confidence'' = Some (PFloat (Fin (py_round tie c0 3)))"
      "map_of (detect_deforestation tie img vi) ''total_pixels'' = Some (PInt (int n))"
    using c0(1) unfolding detect_ndvi[OF assms(1)]
    by (simp_all add: pct_value[OF n(2)] kd_def[symmetric] kf_def[symmetric] n_def[symmetric])
  show ?thesis
    using res pct_bounds[OF k(1) n(2)] pct_bounds[OF k(2) n(2)] conf_bounds[OF c0(2,3)] cf n(1)
    by (auto simp: n_def size_nd_def)
qed

lemma std_spread: "std_of [0, 1001 / 5000] = 1001 / 10000"
proof -
  have "std_of [0, 1001 / 5000] = sqrt ((1001 / 10000)\<^sup>2)"
    by (simp add: std_of_def Let_def power2_eq_square)
  then show ?thesis by simp
qed

text \<open>
  Claim C4 as it is written, at the array \<open>[[0, 0.2002]]\<close>: the standard deviation is
  \<open>0.1001\<close>, the clamped value \<open>0.8999\<close>, and the confidence returned \<open>0.9\<close>.
\<close>

theorem C4_counterexample:
  "map_of (detect_deforestation ties_to_even tiny_image [(''NDVI'', spread_ndvi)]) ''confidence''
     = Some (PFloat (Fin (9 / 10)))
   \<and> py_min (95 / 100) (py_max (1 / 2) (one_minus (np_std (data spread_ndvi))))
     = Fin (8999 / 10000)"
proof -
  have s: "np_std (data spread_ndvi) = Fin (1001 / 10000)"
    by (simp add: np_std_def spread_ndvi_def std_spread)
  have c: "py_min (95 / 100) (py_max (1 / 2) (one_minus (np_std (data spread_ndvi))))
     = Fin (8999 / 10000)"
    unfolding s by (simp add: py_min_def py_max_def)
  have "map_of (detect_deforestation ties_to_even tiny_image [(''NDVI'', spread_ndvi)]) ''confidence''
     = Some (PFloat (np_round ties_to_even (Fin (8999 / 10000)) 3))"
    unfolding c[symmetric] by (simp add: detect_deforestation_def Let_def)
  then show ?thesis using c by (simp add: py_round_def Let_def)
qed

theorem C4_classification_ranges_witness:
  "map_of [(''NDVI'', uniform_ndvi)] ''NDVI'' = Some uniform_ndvi
   \<and> wf_ndarray uniform_ndvi \<and> data uniform_ndvi \<noteq> []
   \<and> map_of (detect_deforestation ties_to_even tiny_image [(''NDVI'', uniform_ndvi)]) ''deforestation_percentage''
       = Some (PFloat (Fin 0))
   \<and> map_of (detect_deforestation ties_to_even tiny_image [(''NDVI'', uniform_ndvi)]) ''forest_percentage''
       = Some (PFloat (Fin 100))
   \<and> map_of (detect_deforestation ties_to_even tiny_image [(''NDVI'', uniform_ndvi)]) ''confidence''
       = Some (PFloat (Fin (95 / 100)))
   \<and> map_of (detect_deforestation ties_to_even tiny_image [(''NDVI'', uniform_ndvi)]) ''total_pixels''
       = Some (PInt 2)"
proof -
  have h1: "map_of [(''NDVI'', uniform_ndvi)] ''NDVI'' = Some uniform_ndvi" by simp
  have h2: "wf_ndarray uniform_ndvi" by (simp add: wf_ndarray_def uniform_ndvi_def)
  have h3: "data uniform_ndvi \<noteq> []" by (simp add: uniform_ndvi_def)
  have fin: "list_all is_fin (data uniform_ndvi)" by (simp add: uniform_ndvi_def)
  have std: "std_of (map fin_val (data uniform_ndvi)) = 0"
    by (simp add: std_of_def uniform_ndvi_def Let_def)
  have r: "py_round ties_to_even (95 / 100) 3 = 95 / 100" by (simp add: py_round_def Let_def)
  have d: "map_of (detect_deforestation ties_to_even tiny_image [(''NDVI'', uniform_ndvi)]) ''deforestation_percentage''
       = Some (PFloat (Fin 0))"
     "map_of (detect_deforestation ties_to_even tiny_image [(''NDVI'', uniform_ndvi)]) ''forest_percentage''
       = Some (PFloat (Fin 100))"
    unfolding detect_ndvi[OF h1]
    by (simp_all add: uniform_ndvi_def count_true_def size_nd_def np_divide_def py_round_def Let_def)
  from C4_classification_ranges[OF h1 h2 h3, where img = tiny_image and tie = ties_to_even] obtain c where
    c: "map_of (detect_deforestation ties_to_even tiny_image [(''NDVI'', uniform_ndvi)]) ''confidence''
          = Some (PFloat (Fin c))"
       "list_all is_fin (data uniform_ndvi) \<longrightarrow>
          c = py_round ties_to_even (min (95 / 100) (max (1 / 2) (1 - std_of (map fin_val (data uniform_ndvi))))) 3"
    and t: "map_of (detect_deforestation ties_to_even tiny_image [(''NDVI'', uniform_ndvi)]) ''total_pixels''
          = Some (PInt (int (prod_list (shape uniform_ndvi))))"
    by blast
  have "c = 95 / 100" using c(2) fin r unfolding std by simp
  then show ?thesis using h1 h2 h3 d c(1) t by (simp add: uniform_ndvi_def)
qed

text \<open>
  Claim C5: in an \<open>NDVI\<close> array of finite values, \<open>forest_pixels\<close> is the number of
  values strictly greater than 0.3 and \<open>deforested_pixels\<close> the number strictly less
  than 0.1, so a value equal to a threshold is in neither bucket; each percentage is
  its count over the number of elements, times 100, rounded to two places.  For a
  non-empty array whose values all lie strictly between 0.1 and 0.3 both percentages
  are 0, so they do not add up to 100.
\<close>

theorem C5_threshold_buckets:
  assumes "map_of vi ''NDVI'' = Some ndvi" and "data ndvi = map Fin vs"
  shows "map_of (detect_deforestation tie img vi) ''forest_pixels''
           = Some (PInt (int (length (filter (\<lambda>v. 3 / 10 < v) vs))))
       \<and> map_of (detect_deforestation tie img vi) ''deforested_pixels''
           = Some (PInt (int (length (filter (\<lambda>v. v < 1 / 10) vs))))
       \<and> (wf_ndarray ndvi \<and> vs \<noteq> [] \<longrightarrow>
            map_of (detect_deforestation tie img vi) ''forest_percentage''
              = Some (PFloat (Fin (py_round tie
                   (real (length (filter (\<lambda>v. 3 / 10 < v) vs)) / real (length vs) * 100) 2)))
          \<and> map_of (detect_deforestation tie img vi) ''deforestation_percentage''
              = Some (PFloat (Fin (py_round tie
                   (real (length (filter (\<lambda>v. v < 1 / 10) vs)) / real (length vs) * 100) 2))))
       \<and> (wf_ndarray ndvi \<and> vs \<noteq> [] \<and> (\<forall>v \<in> set vs. 1 / 10 < v \<and> v < 3 / 10) \<longrightarrow>
            map_of (detect_deforestation tie img vi) ''forest_percentage'' = Some (PFloat (Fin 0))
          \<and> map_of (detect_deforestation tie img vi) ''deforestation_percentage''
              = Some (PFloat (Fin 0)))"
proof -
  define kf where "kf = length (filter (\<lambda>v. 3 / 10 < v) vs)"
  define kd where "kd = length (filter (\<lambda>v. v < 1 / 10) vs)"
  have "filter (\<lambda>x. np_gt x t) (map Fin vs) = map Fin (filter (\<lambda>v. t < v) vs)" for t
    by (induction vs) simp_all
  then have gt: "count_true (\<lambda>x. np_gt x (3 / 10)) (data ndvi) = kf"
    unfolding assms(2) count_true_def kf_def by (simp only: length_map)
  have "filter (\<lambda>x. np_lt x t) (map Fin vs) = map Fin (filter (\<lambda>v. v < t) vs)" for t
    by (induction vs) simp_all
  then have lt: "count_true (\<lambda>x. np_lt x (1 / 10)) (data ndvi) = kd"
    unfolding assms(2) count_true_def kd_def by (simp only: length_map)
  have size: "size_nd ndvi = length vs" if "wf_ndarray ndvi"
    using that by (simp add: size_nd_def wf_ndarray_def assms(2))
  have between: "kf = 0" "kd = 0" if "\<forall>v \<in> set vs. 1 / 10 < v \<and> v < 3 / 10"
    unfolding kf_def kd_def using that by (auto simp: filter_empty_conv)
  have z: "py_round tie 0 2 = 0" by (simp add: py_round_def)
  have 1: "map_of (detect_deforestation tie img vi) ''forest_pixels'' = Some (PInt (int kf))"
    unfolding detect_ndvi[OF assms(1)] gt by simp
  have 2: "map_of (detect_deforestation tie img vi) ''deforested_pixels'' = Some (PInt (int kd))"
    unfolding detect_ndvi[OF assms(1)] lt by simp
  have 3: "map_of (detect_deforestation tie img vi) ''forest_percentage''
              = Some (PFloat (Fin (py_round tie (real kf / real (length vs) * 100) 2)))"
      "map_of (detect_deforestation tie img vi) ''deforestation_percentage''
              = Some (PFloat (Fin (py_round tie (real kd / real (length vs) * 100) 2)))"
    if "wf_ndarray ndvi" "vs \<noteq> []"
    unfolding detect_ndvi[OF assms(1)] gt lt size[OF that(1)]
    using that(2) by (simp_all add: np_divide_def)
  have 4: "map_of (detect_deforestation tie img vi) ''forest_percentage'' = Some (PFloat (Fin 0))"
      "map_of (detect_deforestation tie img vi) ''deforestation_percentage'' = Some (PFloat (Fin 0))"
    if "wf_ndarray ndvi" "vs \<noteq> []" "\<forall>v \<in> set vs. 1 / 10 < v \<and> v < 3 / 10"
    using 3[OF that(1,2)] between[OF that(3)] z by simp_all
  show ?thesis
    unfolding kf_def[symmetric] kd_def[symmetric] using 1 2 3 4 by blast
qed

theorem C5_threshold_buckets_witness:
  "map_of [(''NDVI'', boundary_ndvi)] ''NDVI'' = Some boundary_ndvi
   \<and> data boundary_ndvi = map Fin [3 / 10, 1 / 10, 31 / 100, 9 / 100, 2 / 10]
   \<and> wf_ndarray boundary_ndvi
   \<and> map_of (detect_deforestation ties_to_even tiny_image [(''NDVI'', boundary_ndvi)])
        ''forest_pixels'' = Some (PInt 1)
   \<and> map_of (detect_deforestation ties_to_even tiny_image [(''NDVI'', boundary_ndvi)])
        ''deforested_pixels'' = Some (PInt 1)
   \<and> map_of (detect_deforestation ties_to_even tiny_image [(''NDVI'', boundary_ndvi)])
        ''forest_percentage'' = Some (PFloat (Fin 20))
   \<and> map_of (detect_deforestation ties_to_even tiny_image [(''NDVI'', boundary_ndvi)])
        ''deforestation_percentage'' = Some (PFloat (Fin 20))
   \<and> map_of [(''NDVI'', between_ndvi)] ''NDVI'' = Some between_ndvi
   \<and> data between_ndvi = map Fin [2 / 10, 15 / 100]
   \<and> wf_ndarray between_ndvi
   \<and> list_all (\<lambda>v. 1 / 10 < v \<and> v < 3 / 10) [2 / 10, 15 / 100 :: real]
   \<and> map_of (detect_deforestation ties_to_even tiny_image [(''NDVI'', between_ndvi)])
        ''forest_percentage'' = Some (PFloat (Fin 0))
   \<and> map_of (detect_deforestation ties_to_even tiny_image [(''NDVI'', between_ndvi)])
        ''deforestation_percentage'' = Some (PFloat (Fin 0))"
proof -
  have b1: "map_of [(''NDVI'', boundary_ndvi)] ''NDVI'' = Some boundary_ndvi" by simp
  have b2: "data boundary_ndvi = map Fin [3 / 10, 1 / 10, 31 / 100, 9 / 100, 2 / 10]"
    by (simp add: boundary_ndvi_def)
  have b3: "wf_ndarray boundary_ndvi" by (simp add: wf_ndarray_def boundary_ndvi_def)
  have r: "py_round ties_to_even 20 2 = 20" by (simp add: py_round_def Let_def)
  have B: "map_of (detect_deforestation ties_to_even tiny_image [(''NDVI'', boundary_ndvi)])
        ''forest_pixels'' = Some (PInt 1)"
      "map_of (detect_deforestation ties_to_even tiny_image [(''NDVI'', boundary_ndvi)])
        ''deforested_pixels'' = Some (PInt 1)"
      "map_of (detect_deforestation ties_to_even tiny_image [(''NDVI'', boundary_ndvi)])
        ''forest_percentage'' = Some (PFloat (Fin 20))"
      "map_of (detect_deforestation ties_to_even tiny_image [(''NDVI'', boundary_ndvi)])
        ''deforestation_percentage'' = Some (PFloat (Fin 20))"
    using C5_threshold_buckets[OF b1 b2, where img = tiny_image and tie = ties_to_even] b3 r
    by simp_all
  have m1: "map_of [(''NDVI'', between_ndvi)] ''NDVI'' = Some between_ndvi" by simp
  have m2: "data between_ndvi = map Fin [2 / 10, 15 / 100]" by (simp add: between_ndvi_def)
  have m3: "wf_ndarray between_ndvi" by (simp add: wf_ndarray_def between_ndvi_def)
  have M: "map_of (detect_deforestation ties_to_even tiny_image [(''NDVI'', between_ndvi)])
        ''forest_percentage'' = Some (PFloat (Fin 0))"
      "map_of (detect_deforestation ties_to_even tiny_image [(''NDVI'', between_ndvi)])
        ''deforestation_percentage'' = Some (PFloat (Fin 0))"
    using C5_threshold_buckets[OF m1 m2, where img = tiny_image and tie = ties_to_even] m3
    by (simp_all add: py_round_def)
  show ?thesis using b1 b2 b3 B m1 m2 m3 M by simp
qed

lemma length3E:
  assumes "length (xs :: nat list) = 3"
  obtains h w c where "xs = [h, w, c]"
proof -
  from assms obtain h ys where 1: "xs = h # ys" "length ys = 2" by (cases xs) auto
  then obtain w zs where 2: "ys = w # zs" "length zs = 1" by (cases ys) auto
  then obtain c where 3: "zs = [c]" by (cases zs) auto
  show ?thesis using that 1 2 3 by simp
qed

lemma channel_shape: "shape (channel img c) = take 2 (shape img)"
  by (simp add: channel_def)

lemma elementwise3_wf:
  assumes "length (shape img) = 3"
  shows "wf_ndarray (elementwise3 f (channel img c1) (channel img c2) (channel img c3))"
proof -
  obtain h w c where s: "shape img = [h, w, c]" using assms by (rule length3E)
  show ?thesis
    by (simp add: wf_ndarray_def elementwise3_def channel_def s)
qed

lemma elementwise3_shape: "shape (elementwise3 f a b c) = shape a"
  by (simp add: elementwise3_def)

lemma calc_indices_eq:
  assumes "length (shape img) = 3" and "3 \<le> shape img ! 2"
  shows "calculate_vegetation_indices img =
    [(''NDVI'', elementwise3 (\<lambda>r g b. np_divide (g - r) (g + r + 1 / 10 ^ 8))
                     (channel img 0) (channel img 1) (channel img 2)),
     (''GNDVI'', elementwise3 (\<lambda>r g b. np_divide (g - r) (g + r + 1 / 10 ^ 8))
                     (channel img 0) (channel img 1) (channel img 2)),
     (''VARI'', elementwise3 (\<lambda>r g b. np_divide (g - r) (g + r - b + 1 / 10 ^ 8))
                     (channel img 0) (channel img 1) (channel img 2)),
     (''Greenness'', elementwise3 (\<lambda>r g b. np_divide g (r + b + 1 / 10 ^ 8))
                     (channel img 0) (channel img 1) (channel img 2))]"
  unfolding calculate_vegetation_indices_def Let_def using assms by simp

text \<open>
  Claim C6: for an image of three dimensions and at least three channels, the \<open>GNDVI\<close>
  array is the \<open>NDVI\<close> array, both \<open>(G - R) / (G + R + 1e-8)\<close> element by element, and
  each of the four index arrays is well-formed with the spatial shape of the image.
\<close>

theorem C6_index_set:
  assumes "length (shape img) = 3" and "3 \<le> shape img ! 2"
  shows "map_of (calculate_vegetation_indices img) ''GNDVI''
           = map_of (calculate_vegetation_indices img) ''NDVI''
       \<and> map_of (calculate_vegetation_indices img) ''NDVI''
           = Some (elementwise3 (\<lambda>r g b. np_divide (g - r) (g + r + 1 / 10 ^ 8))
                     (channel img 0) (channel img 1) (channel img 2))
       \<and> map fst (calculate_vegetation_indices img) = [''NDVI'', ''GNDVI'', ''VARI'', ''Greenness'']
       \<and> (\<forall>a \<in> set (map snd (calculate_vegetation_indices img)).
             shape a = take 2 (shape img) \<and> wf_ndarray a)"
proof -
  note wf = elementwise3_wf[OF assms(1)]
  have 1: "map_of (calculate_vegetation_indices img) ''GNDVI''
           = map_of (calculate_vegetation_indices img) ''NDVI''"
    unfolding calc_indices_eq[OF assms] by simp
  have 2: "map_of (calculate_vegetation_indices img) ''NDVI''
           = Some (elementwise3 (\<lambda>r g b. np_divide (g - r) (g + r + 1 / 10 ^ 8))
                     (channel img 0) (channel img 1) (channel img 2))"
    unfolding calc_indices_eq[OF assms] by simp
  have 3: "map fst (calculate_vegetation_indices img) = [''NDVI'', ''GNDVI'', ''VARI'', ''Greenness'']"
    unfolding calc_indices_eq[OF assms] by simp
  have 4: "\<forall>a \<in> set (map snd (calculate_vegetation_indices img)).
             shape a = take 2 (shape img) \<and> wf_ndarray a"
    unfolding calc_indices_eq[OF assms]
    by (simp add: elementwise3_shape channel_shape wf)
  show ?thesis using 1 2 3 4 by blast
qed

lemma upt2: "[0..<2] = [0, Suc 0]"
  by (simp add: upt_rec numeral_2_eq_2)

lemma tiny_channels:
  "data (channel tiny_image 0) = [50 / 255, 200 / 255]"
  "data (channel tiny_image (Suc 0)) = [180 / 255, 60 / 255]"
  "data (channel tiny_image 2) = [50 / 255, 60 / 255]"
  by (simp_all add: channel_def tiny_image_def upt2)

theorem C6_index_set_witness:
  "length (shape tiny_image) = 3 \<and> 3 \<le> shape tiny_image ! 2
   \<and> map_of (calculate_vegetation_indices tiny_image) ''GNDVI''
       = map_of (calculate_vegetation_indices tiny_image) ''NDVI''
   \<and> map fst (calculate_vegetation_indices tiny_image)
       = [''NDVI'', ''GNDVI'', ''VARI'', ''Greenness'']
   \<and> list_all (\<lambda>a. shape a = [1, 2] \<and> wf_ndarray a)
        (map snd (calculate_vegetation_indices tiny_image))"
proof -
  have h1: "length (shape tiny_image) = 3" by (simp add: tiny_image_def)
  have h2: "3 \<le> shape tiny_image ! 2" by (simp add: tiny_image_def)
  have t: "take 2 (shape tiny_image) = [1, 2]" by (simp add: tiny_image_def)
  show ?thesis
    using C6_index_set[OF h1 h2] h1 h2 unfolding t list_all_iff by simp
qed

text \<open>
  The pipeline on the two-pixel image: the green pixel is forest, the bare one is
  deforested.
\<close>

lemma tiny_ndvi:
  "map_of (calculate_vegetation_indices tiny_image) ''NDVI''
     = Some \<lparr>shape = [1, 2],
             data = [Fin ((130 / 255) / (230 / 255 + 1 / 10 ^ 8)),
                     Fin ((- 140 / 255) / (260 / 255 + 1 / 10 ^ 8))]\<rparr>"
proof -
  have h1: "length (shape tiny_image) = 3" by (simp add: tiny_image_def)
  have h2: "3 \<le> shape tiny_image ! 2" by (simp add: tiny_image_def)
  have t: "take 2 (shape tiny_image) = [1, 2]" by (simp add: tiny_image_def)
  show ?thesis
    unfolding calc_indices_eq[OF h1 h2]
    by (simp add: elementwise3_def tiny_channels channel_shape t np_divide_def)
qed

lemma tiny_image_result:
  "map_of (detect_deforestation ties_to_even tiny_image (calculate_vegetation_indices tiny_image))
      ''forest_percentage'' = Some (PFloat (Fin 50))
   \<and> map_of (detect_deforestation ties_to_even tiny_image (calculate_vegetation_indices tiny_image))
      ''deforestation_percentage'' = Some (PFloat (Fin 50))"
  unfolding detect_ndvi[OF tiny_ndvi]
  by (simp add: count_true_def size_nd_def np_divide_def py_round_def Let_def)

lemma find_supported_eq:
  "find_supported d names acc = acc @ map (path_join d) (filter is_supported names)"
  by (induction names arbitrary: acc) simp_all

lemma process_files_eq:
  "process_files process fs acc =
     acc @ map (\<lambda>file_path.
        case process file_path of
          Inr (result, mask_img, indices) \<Rightarrow>
            \<lparr>e_file = basename file_path, e_result = Some result,
             e_status = ''success'', e_error = None\<rparr>
        | Inl e \<Rightarrow>
            \<lparr>e_file = basename file_path, e_result = None,
             e_status = ''error'', e_error = Some (str_error e)\<rparr>) fs"
  by (induction fs arbitrary: acc) simp_all

lemma basename_append_slash:
  assumes "CHR ''/'' \<notin> set f"
  shows "basename (a @ CHR ''/'' # f) = f"
proof -
  have "takeWhile (\<lambda>c. c \<noteq> CHR ''/'') (rev f @ CHR ''/'' # rev a) = rev f"
    using assms by (subst takeWhile_append2) auto
  then show ?thesis by (simp add: basename_def)
qed

lemma basename_plain:
  assumes "CHR ''/'' \<notin> set f"
  shows "basename f = f"
proof -
  have "takeWhile (\<lambda>c. c \<noteq> CHR ''/'') (rev f) = rev f"
    using assms by auto
  then show ?thesis unfolding basename_def by (simp only: rev_rev_ident)
qed

lemma basename_join:
  assumes "CHR ''/'' \<notin> set f"
  shows "basename (path_join d f) = f"
proof -
  have nohd: "\<not> (f \<noteq> [] \<and> hd f = CHR ''/'')" using assms by (cases f) auto
  show ?thesis
  proof (cases "d = []")
    case True
    then have "path_join d f = f" using nohd by (auto simp: path_join_def)
    then show ?thesis using basename_plain[OF assms] by simp
  next
    case False
    show ?thesis
    proof (cases "last d = CHR ''/''")
      case True
      then have dd: "d = butlast d @ [CHR ''/'']" using False by (metis append_butlast_last_id)
      have "basename (d @ f) = basename (butlast d @ CHR ''/'' # f)"
        by (subst dd) simp
      also have "\<dots> = f" by (rule basename_append_slash[OF assms])
      finally have "basename (d @ f) = f" .
      moreover have "path_join d f = d @ f" using nohd False True by (auto simp: path_join_def)
      ultimately show ?thesis by simp
    next
      case l: False
      have "path_join d f = d @ CHR ''/'' # f"
        using nohd False l by (auto simp: path_join_def)
      then show ?thesis using basename_append_slash[OF assms, of d] by simp
    qed
  qed
qed

text \<open>
  Claim C9: for a directory that can be listed, batch processing returns a report whose
  \<open>total_files\<close> is the number of names with a supported extension (compared in lower
  case), and whose results hold one entry per such name, in the order of the listing:
  \<open>success\<close> with the result where the pipeline returned, \<open>error\<close> with the description
  of the exception where it raised, the files after it processed all the same.  The
  \<open>file\<close> of each entry is the name as listed.
\<close>

theorem C9_batch_report:
  "batch_process tie imread rs d (Inr names) =
     Inr \<lparr>report_results =
            map (\<lambda>file_path.
                   case process_satellite_image tie imread rs file_path of
                     Inr (result, mask_img, indices) \<Rightarrow>
                       \<lparr>e_file = basename file_path, e_result = Some result,
                        e_status = ''success'', e_error = None\<rparr>
                   | Inl e \<Rightarrow>
                       \<lparr>e_file = basename file_path, e_result = None,
                        e_status = ''error'', e_error = Some (str_error e)\<rparr>)
                (map (path_join d) (filter is_supported names)),
          report_total_files = length (filter is_supported names)\<rparr>
   \<and> ((\<forall>f \<in> set names. CHR ''/'' \<notin> set f) \<longrightarrow>
        map (basename \<circ> path_join d) (filter is_supported names) = filter is_supported names)"
proof -
  have "map (basename \<circ> path_join d) (filter is_supported names) = filter is_supported names"
    if "\<forall>f \<in> set names. CHR ''/'' \<notin> set f"
    using that by (intro map_idI) (simp add: basename_join)
  then show ?thesis
    by (simp add: batch_process_def Let_def find_supported_eq process_files_eq)
qed

lemma scenario_supported:
  "filter is_supported scenario_names = [''a.jpg'', ''b.PNG'', ''c.jpeg'', ''bad.bmp'', ''worse.JPG'']"
  by (simp add: scenario_names_def is_supported_def supported_formats_def endswith_def lower_def
        lower_char_def)

lemma process_unreadable:
  assumes "imread p = None"
  shows "process_satellite_image tie imread rs p = Inl (ValueError (''Could not load image: '' @ p))"
proof -
  have "load_image imread p = Inl (ValueError (''Could not load image: '' @ p))"
    unfolding load_image_def assms by simp
  then show ?thesis unfolding process_satellite_image_def by simp
qed

lemma process_returns:
  assumes "load_image imread p = Inr img" and "rs img (512, 512) = Inr r"
  shows "\<exists>res m i. process_satellite_image tie imread rs p = Inr (res, m, i)"
proof -
  have "\<exists>q. preprocess_image rs img (512, 512) = Inr q"
    unfolding preprocess_image_def assms(2) by simp
  then obtain q where q: "preprocess_image rs img (512, 512) = Inr q" by blast
  show ?thesis
    unfolding process_satellite_image_def assms(1) sum.case q Let_def by blast
qed

lemma process_bgr_pixel:
  assumes "imread p = Some bgr_pixel"
  shows "\<exists>res m i. process_satellite_image tie imread (cv2_resize nearest_interp) p = Inr (res, m, i)"
proof -
  have l: "load_image imread p = Inr \<lparr>shape = [1, 1, 3], data = [50, 180, 50]\<rparr>"
    unfolding load_image_def assms by (simp add: cvtColor_BGR2RGB_def bgr_pixel_def)
  have "\<exists>r. cv2_resize nearest_interp \<lparr>shape = [1, 1, 3], data = [50, 180, 50]\<rparr> (512, 512) = Inr r"
    by (simp add: cv2_resize_def Let_def)
  then obtain r where r: "cv2_resize nearest_interp \<lparr>shape = [1, 1, 3], data = [50, 180, 50]\<rparr> (512, 512) = Inr r"
    by blast
  show ?thesis by (rule process_returns[where rs = "cv2_resize nearest_interp", OF l r])
qed

theorem C9_batch_report_witness:
  "list_all (\<lambda>f. CHR ''/'' \<notin> set f) scenario_names
   \<and> report_summary (batch_process ties_to_even scenario_imread (cv2_resize nearest_interp) ''imgs'' (Inr scenario_names))
       = Inr (5, [''a.jpg'', ''b.PNG'', ''c.jpeg'', ''bad.bmp'', ''worse.JPG''],
                 [''success'', ''success'', ''success'', ''error'', ''error''])"
proof -
  have h: "\<forall>f \<in> set scenario_names. CHR ''/'' \<notin> set f" by (simp add: scenario_names_def)
  have paths: "map (path_join ''imgs'') (filter is_supported scenario_names)
      = [''imgs/a.jpg'', ''imgs/b.PNG'', ''imgs/c.jpeg'', ''imgs/bad.bmp'', ''imgs/worse.JPG'']"
    unfolding scenario_supported by (simp add: path_join_def)
  have ok: "\<exists>res m i. process_satellite_image ties_to_even scenario_imread (cv2_resize nearest_interp) p = Inr (res, m, i)"
    if "p = ''imgs/a.jpg'' \<or> p = ''imgs/b.PNG'' \<or> p = ''imgs/c.jpeg''" for p
    by (rule process_bgr_pixel) (use that in \<open>auto simp: scenario_imread_def\<close>)
  obtain r1 m1 i1 where p1:
      "process_satellite_image ties_to_even scenario_imread (cv2_resize nearest_interp) ''imgs/a.jpg'' = Inr (r1, m1, i1)"
    using ok[of "''imgs/a.jpg''"] by auto
  obtain r2 m2 i2 where p2:
      "process_satellite_image ties_to_even scenario_imread (cv2_resize nearest_interp) ''imgs/b.PNG'' = Inr (r2, m2, i2)"
    using ok[of "''imgs/b.PNG''"] by auto
  obtain r3 m3 i3 where p3:
      "process_satellite_image ties_to_even scenario_imread (cv2_resize nearest_interp) ''imgs/c.jpeg'' = Inr (r3, m3, i3)"
    using ok[of "''imgs/c.jpeg''"] by auto
  have p4: "process_satellite_image ties_to_even scenario_imread (cv2_resize nearest_interp) ''imgs/bad.bmp''
      = Inl (ValueError (''Could not load image: '' @ ''imgs/bad.bmp''))"
    by (rule process_unreadable) (simp add: scenario_imread_def)
  have p5: "process_satellite_image ties_to_even scenario_imread (cv2_resize nearest_interp) ''imgs/worse.JPG''
      = Inl (ValueError (''Could not load image: '' @ ''imgs/worse.JPG''))"
    by (rule process_unreadable) (simp add: scenario_imread_def)
  have names: "map (basename \<circ> path_join ''imgs'') (filter is_supported scenario_names)
      = filter is_supported scenario_names"
    using C9_batch_report[of ties_to_even scenario_imread "cv2_resize nearest_interp" "''imgs''"
            scenario_names] h by blast
  have files: "map basename [''imgs/a.jpg'', ''imgs/b.PNG'', ''imgs/c.jpeg'', ''imgs/bad.bmp'', ''imgs/worse.JPG'']
      = [''a.jpg'', ''b.PNG'', ''c.jpeg'', ''bad.bmp'', ''worse.JPG'']"
    using names unfolding scenario_supported by (simp add: path_join_def)
  have "report_summary (batch_process ties_to_even scenario_imread (cv2_resize nearest_interp) ''imgs'' (Inr scenario_names))
       = Inr (5, [''a.jpg'', ''b.PNG'', ''c.jpeg'', ''bad.bmp'', ''worse.JPG''],
                 [''success'', ''success'', ''success'', ''error'', ''error''])"
    using C9_batch_report[of ties_to_even scenario_imread "cv2_resize nearest_interp" "''imgs''"
            scenario_names] files
    unfolding scenario_supported report_summary_def
    by (simp add: p1 p2 p3 p4 p5 path_join_def)
  then show ?thesis using h by (simp add: list_all_iff)
qed

text \<open>The only failure of the preprocessor is a failure of the resize.\<close>

lemma preprocess_raises:
  "rs img target = Inl e \<Longrightarrow> preprocess_image rs img target = Inl e"
  by (simp add: preprocess_image_def)

lemma normalize_range:
  "x \<in> set (data (normalize a)) \<Longrightarrow> 0 \<le> x \<and> x \<le> 1"
proof -
  assume "x \<in> set (data (normalize a))"
  then obtain w :: "8 word" where x: "x = real (unat w) / 255" by (auto simp: normalize_def)
  have "unat w < 2 ^ LENGTH(8)" by (rule unsigned_less)
  then have "unat w \<le> 255" by simp
  then have "real (unat w) \<le> real 255" by (rule of_nat_mono)
  moreover have "0 \<le> real (unat w)" by (rule of_nat_0_le_iff)
  ultimately show ?thesis unfolding x by simp
qed

text \<open>The resize of a non-empty image to a non-empty size returns, with this shape.\<close>

lemma cv2_resize_returns:
  assumes "length (shape img) = 2 \<or> length (shape img) = 3"
    and "\<forall>d \<in> set (shape img). 0 < d"
    and "0 < fst target" and "0 < snd target"
  shows "cv2_resize interp img target =
     Inr \<lparr>shape = (if length (shape img) = 3 \<and> shape img ! 2 \<noteq> 1
                    then [snd target, fst target, shape img ! 2]
                    else [snd target, fst target]),
           data = map (interp img target)
                    [0..<snd target * fst target *
                         (if length (shape img) = 3 then shape img ! 2 else 1)]\<rparr>"
proof -
  have l: "0 < length (shape img)" "1 < length (shape img)" using assms(1) by auto
  have p0: "0 < shape img ! 0" using assms(2) l(1) nth_mem by blast
  have p1: "0 < shape img ! 1" using assms(2) l(2) nth_mem by blast
  have p2: "0 < shape img ! 2" if "length (shape img) = 3"
  proof -
    have "2 < length (shape img)" using that by simp
    then show ?thesis using assms(2) nth_mem by blast
  qed
  show ?thesis
    using p0 p1 p2 assms(3,4) by (auto simp: cv2_resize_def Let_def)
qed

text \<open>
  Claim C8, amended: for every well-formed RawImage, a byte array of two or three
  dimensions none of which is empty, and every target size with positive width and
  height, the preprocessor returns without failing an array whose spatial shape is the
  target (height rows, width columns) whatever the size of the input, whose elements
  are the resized bytes divided by 255, each in [0, 1], and which is well-formed.  For a
  two-dimensional source the channel axis is appended after the resize step, to the
  resized array, so that the output has a trailing channel dimension of size 1; a
  three-dimensional source of two or more channels keeps its channels, and one of a
  single channel comes out two-dimensional, as the resize returns it.  This holds for
  every interpolation.
\<close>

theorem C8_preprocess:
  assumes "length (shape img) = 2 \<or> length (shape img) = 3"
    and "\<forall>d \<in> set (shape img). 0 < d"
    and "0 < fst target" and "0 < snd target"
  shows "\<exists>r out. cv2_resize interp img target = Inr r
           \<and> preprocess_image (cv2_resize interp) img target = Inr out
           \<and> take 2 (shape out) = [snd target, fst target]
           \<and> wf_ndarray out
           \<and> (\<forall>x \<in> set (data out). 0 \<le> x \<and> x \<le> 1)
           \<and> data out = map (\<lambda>b. real (unat b) / 255) (data r)
           \<and> (length (shape img) = 2 \<longrightarrow> shape out = [snd target, fst target, 1])
           \<and> (length (shape img) = 3 \<longrightarrow>
                shape out = (if shape img ! 2 = 1 then [snd target, fst target]
                             else [snd target, fst target, shape img ! 2]))"
proof -
  define C where "C = (if length (shape img) = 3 then shape img ! 2 else 1)"
  define r :: "8 word ndarray" where
    "r = \<lparr>shape = (if length (shape img) = 3 \<and> shape img ! 2 \<noteq> 1
                    then [snd target, fst target, shape img ! 2]
                    else [snd target, fst target]),
           data = map (interp img target) [0..<snd target * fst target * C]\<rparr>"
  define out where "out = normalize (if length (shape img) = 3 then r else expand_dims_last r)"
  have r: "cv2_resize interp img target = Inr r"
    unfolding r_def C_def by (rule cv2_resize_returns[OF assms])
  have 1: "preprocess_image (cv2_resize interp) img target = Inr out"
    by (simp add: preprocess_image_def r out_def)
  have s: "shape out = (if length (shape img) = 3 then shape r else shape r @ [1])"
    by (simp add: out_def normalize_def expand_dims_last_def)
  have 2: "take 2 (shape out) = [snd target, fst target]"
    unfolding s by (simp add: r_def)
  have len: "length (data out) = snd target * fst target * C"
    by (simp add: out_def normalize_def expand_dims_last_def r_def)
  have 3: "wf_ndarray out"
    unfolding wf_ndarray_def len s using assms(1) by (auto simp: r_def C_def)
  have 4: "\<forall>x \<in> set (data out). 0 \<le> x \<and> x \<le> 1"
    unfolding out_def using normalize_range by blast
  have 5: "data out = map (\<lambda>b. real (unat b) / 255) (data r)"
    by (simp add: out_def normalize_def expand_dims_last_def)
  have 6: "length (shape img) = 2 \<longrightarrow> shape out = [snd target, fst target, 1]"
    unfolding s by (simp add: r_def)
  have 7: "length (shape img) = 3 \<longrightarrow>
                shape out = (if shape img ! 2 = 1 then [snd target, fst target]
                             else [snd target, fst target, shape img ! 2])"
    unfolding s by (simp add: r_def)
  show ?thesis using r 1 2 3 4 5 6 7 by blast
qed

lemma upt6: "[0..<6] = [0, 1, 2, 3, 4, 5]"
  by (simp add: upt_rec eval_nat_numeral)

lemma resize_gray_pixel:
  "cv2_resize nearest_interp gray_pixel (2, 3)
     = Inr \<lparr>shape = [3, 2], data = [255, 255, 255, 255, 255, 255]\<rparr>"
  by (simp add: cv2_resize_def nearest_interp_def gray_pixel_def Let_def upt6)

lemma resize_rgb_pixel:
  "cv2_resize nearest_interp rgb_pixel (1, 2)
     = Inr \<lparr>shape = [2, 1, 3], data = [50, 180, 50, 50, 180, 50]\<rparr>"
  by (simp add: cv2_resize_def nearest_interp_def rgb_pixel_def Let_def upt6)

theorem C8_preprocess_witness:
  "(length (shape gray_pixel) = 2 \<or> length (shape gray_pixel) = 3)
   \<and> list_all (\<lambda>d. 0 < d) (shape gray_pixel)
   \<and> preprocess_image (cv2_resize nearest_interp) gray_pixel (2, 3)
       = Inr \<lparr>shape = [3, 2, 1], data = [1, 1, 1, 1, 1, 1]\<rparr>
   \<and> (length (shape rgb_pixel) = 2 \<or> length (shape rgb_pixel) = 3)
   \<and> list_all (\<lambda>d. 0 < d) (shape rgb_pixel)
   \<and> preprocess_image (cv2_resize nearest_interp) rgb_pixel (1, 2)
       = Inr \<lparr>shape = [2, 1, 3],
              data = [50 / 255, 180 / 255, 50 / 255, 50 / 255, 180 / 255, 50 / 255]\<rparr>"
proof -
  have g1: "length (shape gray_pixel) = 2 \<or> length (shape gray_pixel) = 3"
    and g2: "\<forall>d \<in> set (shape gray_pixel). 0 < d"
    by (simp_all add: gray_pixel_def)
  have c1: "length (shape rgb_pixel) = 2 \<or> length (shape rgb_pixel) = 3"
    and c2: "\<forall>d \<in> set (shape rgb_pixel). 0 < d"
    by (simp_all add: rgb_pixel_def)
  have t: "0 < fst (2 :: nat, 3 :: nat)" "0 < snd (2 :: nat, 3 :: nat)"
    "0 < fst (1 :: nat, 2 :: nat)" "0 < snd (1 :: nat, 2 :: nat)" by simp_all
  obtain r out where g:
      "cv2_resize nearest_interp gray_pixel (2, 3) = Inr r"
      "preprocess_image (cv2_resize nearest_interp) gray_pixel (2, 3) = Inr out"
      "data out = map (\<lambda>b. real (unat b) / 255) (data r)"
      "length (shape gray_pixel) = 2 \<longrightarrow> shape out = [snd (2 :: nat, 3 :: nat), fst (2 :: nat, 3 :: nat), 1]"
    using C8_preprocess[OF g1 g2 t(1,2), of nearest_interp] by blast
  have rg: "r = \<lparr>shape = [3, 2], data = [255, 255, 255, 255, 255, 255]\<rparr>"
    using g(1) unfolding resize_gray_pixel by simp
  have "out = \<lparr>shape = [3, 2, 1], data = [1, 1, 1, 1, 1, 1]\<rparr>"
    using g(3,4) unfolding rg by (cases out) (simp add: gray_pixel_def)
  then have G: "preprocess_image (cv2_resize nearest_interp) gray_pixel (2, 3)
       = Inr \<lparr>shape = [3, 2, 1], data = [1, 1, 1, 1, 1, 1]\<rparr>"
    using g(2) by simp
  obtain r' out' where c:
      "cv2_resize nearest_interp rgb_pixel (1, 2) = Inr r'"
      "preprocess_image (cv2_resize nearest_interp) rgb_pixel (1, 2) = Inr out'"
      "data out' = map (\<lambda>b. real (unat b) / 255) (data r')"
      "length (shape rgb_pixel) = 3 \<longrightarrow>
         shape out' = (if shape rgb_pixel ! 2 = 1 then [snd (1 :: nat, 2 :: nat), fst (1 :: nat, 2 :: nat)]
                       else [snd (1 :: nat, 2 :: nat), fst (1 :: nat, 2 :: nat), shape rgb_pixel ! 2])"
    using C8_preprocess[OF c1 c2 t(3,4), of nearest_interp] by blast
  have rc: "r' = \<lparr>shape = [2, 1, 3], data = [50, 180, 50, 50, 180, 50]\<rparr>"
    using c(1) unfolding resize_rgb_pixel by simp
  have "out' = \<lparr>shape = [2, 1, 3],
              data = [50 / 255, 180 / 255, 50 / 255, 50 / 255, 180 / 255, 50 / 255]\<rparr>"
    using c(3,4) unfolding rc by (cases out') (simp add: rgb_pixel_def)
  then have R: "preprocess_image (cv2_resize nearest_interp) rgb_pixel (1, 2)
       = Inr \<lparr>shape = [2, 1, 3],
              data = [50 / 255, 180 / 255, 50 / 255, 50 / 255, 180 / 255, 50 / 255]\<rparr>"
    using c(2) by simp
  show ?thesis using g1 g2 c1 c2 G R by (simp add: list_all_iff)
qed

text \<open>
  Claim C8 as it is written, at a one-by-one grey image: the code resizes the
  two-dimensional array and appends the axis afterwards, which gives shape (1, 1, 1);
  appending the axis before the resize step gives shape (1, 1), because the resize
  returns a two-dimensional array for a single channel.
\<close>

theorem C8_counterexample:
  "preprocess_image (cv2_resize nearest_interp) gray_pixel (1, 1)
     = Inr \<lparr>shape = [1, 1, 1], data = [1]\<rparr>
   \<and> preprocess_axis_first (cv2_resize nearest_interp) gray_pixel (1, 1)
     = Inr \<lparr>shape = [1, 1], data = [1]\<rparr>"
  by (simp add: preprocess_image_def preprocess_axis_first_def cv2_resize_def nearest_interp_def
        gray_pixel_def expand_dims_last_def normalize_def Let_def)

end
